theory Spec2Isabelle
  imports Main "HOL-Library.Word" "HOL-Library.Sublist"
begin

section \<open>JavaScript values read by the chat component\<close>

text \<open>
  The component under study is \<^verbatim>\<open>ChatBotUI\<close> of
  \<^verbatim>\<open>app/chat-bot/frontend/ChatBotUI.tsx\<close>. A JavaScript string is a sequence of
  UTF-16 code units; \<^verbatim>\<open>trim\<close>, \<^verbatim>\<open>===\<close> and \<^verbatim>\<open>startsWith\<close> work on code units,
  so strings are lists of 16-bit words. An ASCII literal of the source is written
  \<open>str ''...''\<close>.
\<close>

type_synonym code_unit = "16 word"
type_synonym jsstring = "code_unit list"

definition str :: "string \<Rightarrow> jsstring" where
  "str cs = map of_char cs"

text \<open>
  \<^verbatim>\<open>String.prototype.trim\<close> strips the ECMAScript WhiteSpace and LineTerminator code
  points from both ends: TAB, LF, VT, FF, CR, SP, NBSP, U+1680, U+2000 to U+200A, U+2028,
  U+2029, U+202F, U+205F, U+3000 and U+FEFF. All of them are single code units.
\<close>

definition isWhiteSpace :: "code_unit \<Rightarrow> bool" where
  "isWhiteSpace c \<longleftrightarrow>
     c = 0x9 \<or> c = 0xA \<or> c = 0xB \<or> c = 0xC \<or> c = 0xD \<or> c = 0x20 \<or> c = 0xA0 \<or>
     c = 0x1680 \<or> (0x2000 \<le> c \<and> c \<le> 0x200A) \<or> c = 0x2028 \<or> c = 0x2029 \<or>
     c = 0x202F \<or> c = 0x205F \<or> c = 0x3000 \<or> c = 0xFEFF"

definition trim :: "jsstring \<Rightarrow> jsstring" where
  "trim s = rev (dropWhile isWhiteSpace (rev (dropWhile isWhiteSpace s)))"

text \<open>\<^verbatim>\<open>String(n)\<close> and \<^verbatim>\<open>n.toString()\<close> of a non-negative integer: its decimal digits.\<close>

fun show_nat :: "nat \<Rightarrow> jsstring" where
  "show_nat n =
     (if n < 10 then [of_nat (48 + n)]
      else show_nat (n div 10) @ [of_nat (48 + n mod 10)])"

declare show_nat.simps [simp del]

text \<open>
  Truthiness of a value that is a string when present: \<^verbatim>\<open>null\<close>, \<^verbatim>\<open>undefined\<close>
  and the empty string are falsy.
\<close>

definition truthy :: "jsstring option \<Rightarrow> bool" where
  "truthy v = (case v of None \<Rightarrow> False | Some s \<Rightarrow> s \<noteq> [])"

definition startsWith :: "jsstring \<Rightarrow> jsstring \<Rightarrow> bool" where
  "startsWith s p \<longleftrightarrow> take (length p) s = p"

text \<open>\<^verbatim>\<open>Platform.OS\<close> of React Native.\<close>

datatype platform = Ios | Android | Windows | Macos | Web

fun OS :: "platform \<Rightarrow> jsstring" where
  "OS Ios = str ''ios''"
| "OS Android = str ''android''"
| "OS Windows = str ''windows''"
| "OS Macos = str ''macos''"
| "OS Web = str ''web''"

text \<open>
  Errors thrown in the component: \<^verbatim>\<open>new Error(message)\<close> of the source, the
  \<^verbatim>\<open>TypeError\<close> of a failed transport or of a method call on \<^verbatim>\<open>undefined\<close>, and the
  \<^verbatim>\<open>SyntaxError\<close> of \<^verbatim>\<open>response.json()\<close> on a body that is not JSON.
\<close>

datatype js_error = Error jsstring | TypeError | SyntaxError

section \<open>Data model\<close>

datatype sender = User | Bot

text \<open>
  A \<^verbatim>\<open>Date\<close> is either a reading of the client clock (\<^verbatim>\<open>new Date()\<close>, in milliseconds)
  or the parse of a server string (\<^verbatim>\<open>new Date(created_at)\<close>), kept unparsed.
\<close>

datatype timestamp = Clock nat | Parsed jsstring

text \<open>
  \<^verbatim>\<open>interface Message\<close>. The identifier is \<open>None\<close> where the source stores
  \<^verbatim>\<open>undefined\<close>: the bot message takes \<^verbatim>\<open>data.response.id\<close> unchecked.
\<close>

record message =
  m_id :: "jsstring option"
  m_text :: jsstring
  m_sender :: sender
  m_timestamp :: timestamp

text \<open>\<^verbatim>\<open>interface Conversation\<close>.\<close>

record conversation =
  c_id :: jsstring
  c_title :: jsstring

text \<open>The session of \<^verbatim>\<open>useAuth()\<close>; only the bearer token reaches the requests.\<close>

record session =
  access_token :: jsstring

text \<open>The JSON body of \<^verbatim>\<open>POST /chat\<close>; \<open>req_conversation_id = None\<close> is an omitted field.\<close>

record chat_request =
  req_message :: jsstring
  req_conversation_id :: "jsstring option"

text \<open>The outbound calls of the component, each with its bearer token.\<close>

datatype request =
    GET_conversations jsstring
  | GET_messages jsstring jsstring
  | DELETE_conversation jsstring jsstring
  | POST_chat jsstring chat_request

text \<open>
  The state of the component: the six \<^verbatim>\<open>useState\<close> cells, and the trace of the
  network calls issued so far (\<open>requests\<close>, not a cell of the component).
\<close>

record chat_state =
  messages :: "message list"
  inputText :: jsstring
  isLoading :: bool
  isLoadingConversations :: bool
  conversations :: "conversation list"
  currentConversationId :: "jsstring option"
  requests :: "request list"

section \<open>Promises, responses and the timeout\<close>

text \<open>
  A promise either never settles, or settles some milliseconds after its creation, fulfilled
  with a value or rejected with an error.
\<close>

datatype 'a promise = Pending | Fulfilled nat 'a | Rejected nat js_error

text \<open>
  The result of \<^verbatim>\<open>response.json()\<close>: a rejection on a body that is not JSON, \<^verbatim>\<open>null\<close>,
  or a value of the shape the caller reads. The fields that the source tests for presence
  are options; the others have the type of the TypeScript declarations.
\<close>

datatype 'b json_body = NotJSON | JNull | JValue 'b

record 'b http_response =
  status :: nat
  body_text :: jsstring
  body_json :: "'b json_body"

definition ok :: "('b, 'z) http_response_scheme \<Rightarrow> bool" where
  "ok r \<longleftrightarrow> 200 \<le> status r \<and> status r \<le> 299"

definition FETCH_TIMEOUT :: nat where
  "FETCH_TIMEOUT = 30000"

definition timed_out :: js_error where
  "timed_out = Error (str ''Network request timed out'')"

text \<open>
  \<^verbatim>\<open>fetchWithTimeout\<close> races the transport against a timer that rejects after
  \<open>timeout\<close> milliseconds. The first to settle wins; when both settle in the same
  millisecond the order is the event loop's, and the model lets the transport win.
\<close>

definition fetchWithTimeout :: "nat \<Rightarrow> 'a promise \<Rightarrow> 'a promise" where
  "fetchWithTimeout timeout p =
     (case p of
        Pending \<Rightarrow> Rejected timeout timed_out
      | Fulfilled t r \<Rightarrow> if t \<le> timeout then Fulfilled t r else Rejected timeout timed_out
      | Rejected t e \<Rightarrow> if t \<le> timeout then Rejected t e else Rejected timeout timed_out)"

definition server_error :: "nat \<Rightarrow> jsstring \<Rightarrow> js_error" where
  "server_error st txt = Error (str ''Server error: '' @ show_nat st @ str '' - '' @ txt)"

text \<open>
  What an asynchronous operation leaves behind: \<open>Completed\<close> when its promise is fulfilled,
  \<open>Failed\<close> when its promise is rejected, \<open>Suspended\<close> when it awaits a promise that
  never settles. Each carries the component state reached.
\<close>

datatype 'a run = Completed 'a | Failed js_error 'a | Suspended 'a

primrec state_of :: "'a run \<Rightarrow> 'a" where
  "state_of (Completed s) = s"
| "state_of (Failed e s) = s"
| "state_of (Suspended s) = s"

section \<open>List conversations\<close>

text \<open>
  Every operation takes the platform, the session of the render that created the handler,
  the clock at the call (\<open>now\<close>, milliseconds) and the promise of each transport call it
  may issue. A continuation reads the clock at the moment the promise it awaited settled.

  An operation is run alone, from the state in which its handler is invoked to the state
  in which all its callbacks have run. The values a handler closes over
  (\<^verbatim>\<open>session\<close>, \<^verbatim>\<open>currentConversationId\<close>, \<^verbatim>\<open>messages\<close>) are those of the state it is
  invoked in; a functional update \<^verbatim>\<open>setMessages(prev => ...)\<close> reads the state of the
  moment it is applied. A response delivers its body with it: \<^verbatim>\<open>response.text()\<close> and
  \<^verbatim>\<open>response.json()\<close> settle at once. Console output is not modelled.

  \<^verbatim>\<open>fetchConversations\<close> is lines 150 to 217 of the source.
\<close>

definition diagnosticMessage :: "platform \<Rightarrow> nat \<Rightarrow> message" where
  "diagnosticMessage plat t =
     \<lparr>m_id = Some (str ''diagnostic-'' @ show_nat t),
      m_text = [0xD83D, 0xDD27] @ str '' Diagnostic: Failed to load conversations on ''
                 @ OS plat @ str ''. Check console for details.'',
      m_sender = Bot, m_timestamp = Clock t\<rparr>"

text \<open>The \<^verbatim>\<open>try\<close> block of \<^verbatim>\<open>fetchConversations\<close> after the response has arrived.\<close>

definition list_try ::
  "conversation list http_response \<Rightarrow> chat_state \<Rightarrow> js_error + chat_state" where
  "list_try response s =
     (if \<not> ok response then Inl (server_error (status response) (body_text response))
      else case body_json response of
             NotJSON \<Rightarrow> Inl SyntaxError
           | JNull \<Rightarrow> Inl TypeError
           | JValue data \<Rightarrow>
               Inr (s\<lparr>conversations :=
                        map (\<lambda>conv. \<lparr>c_id = c_id conv, c_title = c_title conv\<rparr>) data\<rparr>))"

definition list_catch :: "platform \<Rightarrow> nat \<Rightarrow> chat_state \<Rightarrow> chat_state" where
  "list_catch plat t s = s\<lparr>messages := messages s @ [diagnosticMessage plat t]\<rparr>"

definition list_finally :: "chat_state \<Rightarrow> chat_state" where
  "list_finally s = s\<lparr>isLoadingConversations := False\<rparr>"

definition fetchConversations ::
  "platform \<Rightarrow> session option \<Rightarrow> nat \<Rightarrow> conversation list http_response promise
     \<Rightarrow> chat_state \<Rightarrow> chat_state run" where
  "fetchConversations plat sess now net s =
     (case sess of
        None \<Rightarrow> Completed s
      | Some se \<Rightarrow>
          let s1 = s\<lparr>isLoadingConversations := True,
                     requests := requests s @ [GET_conversations (access_token se)]\<rparr>
          in (case fetchWithTimeout FETCH_TIMEOUT net of
                Pending \<Rightarrow> Suspended s1
              | Rejected t e \<Rightarrow> Completed (list_finally (list_catch plat (now + t) s1))
              | Fulfilled t response \<Rightarrow>
                  (case list_try response s1 of
                     Inr s2 \<Rightarrow> Completed (list_finally s2)
                   | Inl e \<Rightarrow> Completed (list_finally (list_catch plat (now + t) s1)))))"

section \<open>Load conversation\<close>

text \<open>An element of \<^verbatim>\<open>data.messages\<close> of \<^verbatim>\<open>GET /conversations/{id}/messages\<close>.\<close>

record server_message =
  sm_id :: jsstring
  sm_content :: jsstring
  sm_role :: jsstring
  sm_created_at :: jsstring

definition loadedMessage :: "server_message \<Rightarrow> message" where
  "loadedMessage msg =
     \<lparr>m_id = Some (sm_id msg), m_text = sm_content msg,
      m_sender = (if sm_role msg = str ''user'' then User else Bot),
      m_timestamp = Parsed (sm_created_at msg)\<rparr>"

definition loadErrorMessage :: "platform \<Rightarrow> nat \<Rightarrow> nat \<Rightarrow> message" where
  "loadErrorMessage plat t st =
     \<lparr>m_id = Some (str ''error-'' @ show_nat t),
      m_text = str ''Error loading conversation: '' @ show_nat st @ str ''. Platform: '' @ OS plat,
      m_sender = Bot, m_timestamp = Clock t\<rparr>"

definition loadFormatMessage :: "nat \<Rightarrow> message" where
  "loadFormatMessage t =
     \<lparr>m_id = Some (str ''error-format-'' @ show_nat t),
      m_text = str ''Failed to parse conversation messages.'',
      m_sender = Bot, m_timestamp = Clock t\<rparr>"

definition loadFetchMessage :: "platform \<Rightarrow> nat \<Rightarrow> message" where
  "loadFetchMessage plat t =
     \<lparr>m_id = Some (str ''error-fetch-'' @ show_nat t),
      m_text = str ''An error occurred while fetching conversation. Platform: '' @ OS plat,
      m_sender = Bot, m_timestamp = Clock t\<rparr>"

text \<open>
  The \<^verbatim>\<open>try\<close> block after the response has arrived: the state it reached, and the error
  it threw if it threw. The body is the \<^verbatim>\<open>messages\<close> property of the parsed object,
  \<open>None\<close> when the property is absent.
\<close>

definition load_try ::
  "platform \<Rightarrow> nat \<Rightarrow> server_message list option http_response \<Rightarrow> chat_state
     \<Rightarrow> chat_state \<times> js_error option" where
  "load_try plat t response s =
     (if \<not> ok response then
        (s\<lparr>messages := [loadErrorMessage plat t (status response)]\<rparr>,
         Some (server_error (status response) (body_text response)))
      else case body_json response of
             NotJSON \<Rightarrow> (s, Some SyntaxError)
           | JNull \<Rightarrow> (s\<lparr>messages := [loadFormatMessage t]\<rparr>, None)
           | JValue None \<Rightarrow> (s\<lparr>messages := [loadFormatMessage t]\<rparr>, None)
           | JValue (Some msgs) \<Rightarrow> (s\<lparr>messages := map loadedMessage msgs\<rparr>, None))"

text \<open>
  The \<^verbatim>\<open>catch\<close> block tests \<^verbatim>\<open>messages.length === 0\<close> on the message list of the render
  that created the handler (\<open>closure\<close>), not on the list just cleared.
\<close>

definition load_catch :: "platform \<Rightarrow> nat \<Rightarrow> message list \<Rightarrow> chat_state \<Rightarrow> chat_state" where
  "load_catch plat t closure s =
     (if length closure = 0 then s\<lparr>messages := [loadFetchMessage plat t]\<rparr> else s)"

definition loading_finally :: "chat_state \<Rightarrow> chat_state" where
  "loading_finally s = s\<lparr>isLoading := False\<rparr>"

text \<open>
  The state in which \<^verbatim>\<open>loadConversation\<close> issues its request: the flag is raised, the
  message list cleared and the requested identifier made current, all before the call.
\<close>

definition load_dispatch :: "session \<Rightarrow> jsstring \<Rightarrow> chat_state \<Rightarrow> chat_state" where
  "load_dispatch se conversationId s =
     s\<lparr>isLoading := True, messages := [], currentConversationId := Some conversationId,
       requests := requests s @ [GET_messages conversationId (access_token se)]\<rparr>"

text \<open>
  \<^verbatim>\<open>loadConversation\<close>, lines 241 to 317 of the source. The call is a plain
  \<^verbatim>\<open>fetch\<close>: no timer races it, and a promise that never settles suspends the operation
  before its \<^verbatim>\<open>finally\<close> block.
\<close>

definition loadConversation ::
  "platform \<Rightarrow> session option \<Rightarrow> nat \<Rightarrow> jsstring
     \<Rightarrow> server_message list option http_response promise \<Rightarrow> chat_state \<Rightarrow> chat_state run" where
  "loadConversation plat sess now conversationId net s =
     (case sess of
        None \<Rightarrow> Completed s
      | Some se \<Rightarrow>
          let s1 = load_dispatch se conversationId s
          in (case net of
                Pending \<Rightarrow> Suspended s1
              | Rejected t e \<Rightarrow>
                  Completed (loading_finally (load_catch plat (now + t) (messages s) s1))
              | Fulfilled t response \<Rightarrow>
                  (case load_try plat (now + t) response s1 of
                     (s2, None) \<Rightarrow> Completed (loading_finally s2)
                   | (s2, Some e) \<Rightarrow>
                       Completed (loading_finally (load_catch plat (now + t) (messages s) s2)))))"

section \<open>Start new conversation and delete conversation\<close>

text \<open>\<^verbatim>\<open>handleNewChat\<close>, lines 320 to 326 of the source: no network call.\<close>

definition handleNewChat :: "chat_state \<Rightarrow> chat_state" where
  "handleNewChat s = s\<lparr>currentConversationId := None, messages := [], inputText := []\<rparr>"

definition deleteErrorMessage :: "nat \<Rightarrow> nat \<Rightarrow> message" where
  "deleteErrorMessage t st =
     \<lparr>m_id = Some (str ''error-delete-'' @ show_nat t),
      m_text = str ''Error deleting conversation: '' @ show_nat st @ str ''. Please try again.'',
      m_sender = Bot, m_timestamp = Clock t\<rparr>"

definition deleteFetchMessage :: "nat \<Rightarrow> message" where
  "deleteFetchMessage t =
     \<lparr>m_id = Some (str ''error-delete-fetch-'' @ show_nat t),
      m_text = str ''An error occurred while deleting the conversation.'',
      m_sender = Bot, m_timestamp = Clock t\<rparr>"

text \<open>
  \<^verbatim>\<open>messages.find(m => m.id.startsWith('error-delete'))\<close>, as a truth value: the scan
  stops at the first match, and throws at a message whose identifier is \<^verbatim>\<open>undefined\<close>.
\<close>

fun find_error_delete :: "message list \<Rightarrow> js_error + bool" where
  "find_error_delete [] = Inr False"
| "find_error_delete (m # ms) =
     (case m_id m of
        None \<Rightarrow> Inl TypeError
      | Some i \<Rightarrow> if startsWith i (str ''error-delete'') then Inr True
                  else find_error_delete ms)"

text \<open>
  The \<^verbatim>\<open>catch\<close> and \<^verbatim>\<open>finally\<close> blocks of \<^verbatim>\<open>handleDeleteConversation\<close>. The scan runs
  on the message list of the render that created the handler; when it throws, the
  \<^verbatim>\<open>finally\<close> block still runs and the promise of the operation is rejected.
\<close>

definition delete_catch :: "nat \<Rightarrow> message list \<Rightarrow> chat_state \<Rightarrow> chat_state run" where
  "delete_catch t closure s =
     (case find_error_delete closure of
        Inl e \<Rightarrow> Failed e (loading_finally s)
      | Inr True \<Rightarrow> Completed (loading_finally s)
      | Inr False \<Rightarrow>
          Completed (loading_finally (s\<lparr>messages := messages s @ [deleteFetchMessage t]\<rparr>)))"

definition delete_dispatch :: "session \<Rightarrow> jsstring \<Rightarrow> chat_state \<Rightarrow> chat_state" where
  "delete_dispatch se conversationId s =
     s\<lparr>isLoading := True,
       requests := requests s @ [DELETE_conversation conversationId (access_token se)]\<rparr>"

text \<open>
  \<^verbatim>\<open>handleDeleteConversation\<close>, lines 329 to 378 of the source. The call is a plain
  \<^verbatim>\<open>fetch\<close>. After a 2xx response the operation awaits \<^verbatim>\<open>fetchConversations\<close>, then
  compares the identifier with the current one of the render that created the handler.
\<close>

definition handleDeleteConversation ::
  "platform \<Rightarrow> session option \<Rightarrow> nat \<Rightarrow> jsstring \<Rightarrow> 'b http_response promise
     \<Rightarrow> conversation list http_response promise \<Rightarrow> chat_state \<Rightarrow> chat_state run" where
  "handleDeleteConversation plat sess now conversationId net_delete net_list s =
     (case sess of
        None \<Rightarrow> Completed s
      | Some se \<Rightarrow>
          let s1 = delete_dispatch se conversationId s
          in (case net_delete of
                Pending \<Rightarrow> Suspended s1
              | Rejected t e \<Rightarrow> delete_catch (now + t) (messages s) s1
              | Fulfilled t response \<Rightarrow>
                  (if \<not> ok response then
                     delete_catch (now + t) (messages s)
                       (s1\<lparr>messages :=
                            messages s1 @ [deleteErrorMessage (now + t) (status response)]\<rparr>)
                   else
                     (case fetchConversations plat sess (now + t) net_list s1 of
                        Completed s2 \<Rightarrow>
                          Completed (loading_finally
                            (if currentConversationId s = Some conversationId
                             then handleNewChat s2 else s2))
                      | Failed e s2 \<Rightarrow> delete_catch (now + t) (messages s) s2
                      | Suspended s2 \<Rightarrow> Suspended s2))))"

section \<open>Send message\<close>

text \<open>
  The body of a 2xx answer of \<^verbatim>\<open>POST /chat\<close>, as far as the component reads it:
  \<^verbatim>\<open>{ conversation_id, response: { id, content, created_at } }\<close>. Each property may be
  absent.
\<close>

record assistant_message =
  am_id :: "jsstring option"
  content :: "jsstring option"
  created_at :: "jsstring option"

record chat_response =
  conversation_id :: "jsstring option"
  response :: "assistant_message option"

definition authErrorMessage :: "nat \<Rightarrow> message" where
  "authErrorMessage t =
     \<lparr>m_id = Some (show_nat t), m_text = str ''Authentication error. Please log in again.'',
      m_sender = Bot, m_timestamp = Clock t\<rparr>"

definition userMessage :: "nat \<Rightarrow> jsstring \<Rightarrow> message" where
  "userMessage t txt = \<lparr>m_id = Some (show_nat t), m_text = txt, m_sender = User, m_timestamp = Clock t\<rparr>"

definition errorBotMessage :: "nat \<Rightarrow> message" where
  "errorBotMessage t =
     \<lparr>m_id = Some (show_nat (t + 2)), m_text = str ''Error: Bot response format is unexpected.'',
      m_sender = Bot, m_timestamp = Clock t\<rparr>"

definition sendErrorMessage :: "platform \<Rightarrow> nat \<Rightarrow> message" where
  "sendErrorMessage plat t =
     \<lparr>m_id = Some (show_nat (t + 1)),
      m_text = str ''Error sending message on '' @ OS plat @ str ''. Check console for details.'',
      m_sender = Bot, m_timestamp = Clock t\<rparr>"

text \<open>\<^verbatim>\<open>conversation_id\<close> is set only when the current identifier is truthy.\<close>

definition requestBody :: "chat_state \<Rightarrow> chat_request" where
  "requestBody s =
     \<lparr>req_message = inputText s,
      req_conversation_id =
        (if truthy (currentConversationId s) then currentConversationId s else None)\<rparr>"

text \<open>
  The state in which \<^verbatim>\<open>handleSendMessage\<close> issues its request: the user's message
  appended, the input cleared and the flag raised, all before the call.
\<close>

definition send_dispatch :: "session \<Rightarrow> nat \<Rightarrow> chat_state \<Rightarrow> chat_state" where
  "send_dispatch se now s =
     s\<lparr>messages := messages s @ [userMessage now (inputText s)],
       inputText := [],
       isLoading := True,
       requests := requests s @ [POST_chat (access_token se) (requestBody s)]\<rparr>"

definition send_malformed :: "nat \<Rightarrow> chat_state \<Rightarrow> chat_state" where
  "send_malformed t s = s\<lparr>messages := messages s @ [errorBotMessage t]\<rparr>"

text \<open>
  The accepting branch of the \<^verbatim>\<open>.then(data => ...)\<close> callback. \<open>cur\<close> is the current
  identifier of the render that created the handler. \<^verbatim>\<open>fetchConversations()\<close> is called
  without \<^verbatim>\<open>await\<close>; the result is the state once that refresh has settled too.
\<close>

definition send_accept ::
  "platform \<Rightarrow> session option \<Rightarrow> nat \<Rightarrow> jsstring option
     \<Rightarrow> conversation list http_response promise
     \<Rightarrow> assistant_message \<Rightarrow> jsstring \<Rightarrow> jsstring \<Rightarrow> chat_state \<Rightarrow> chat_state run" where
  "send_accept plat sess t cur net_list r c cid s =
     (let botMessage =
            \<lparr>m_id = am_id r, m_text = c, m_sender = Bot,
             m_timestamp =
               (case created_at r of
                  None \<Rightarrow> Clock t
                | Some ca \<Rightarrow> if ca \<noteq> [] then Parsed ca else Clock t)\<rparr>;
          s2 = s\<lparr>messages := messages s @ [botMessage]\<rparr>
      in (if \<not> truthy cur \<or> cur \<noteq> Some cid then
            (let s3 = s2\<lparr>currentConversationId := Some cid\<rparr>
             in (if \<not> truthy cur then fetchConversations plat sess t net_list s3
                 else Completed s3))
          else Completed s2))"

text \<open>
  The whole callback: the test
  \<^verbatim>\<open>data && data.response && data.response.content && data.conversation_id\<close>, where
  \<open>data = None\<close> is \<^verbatim>\<open>null\<close>.
\<close>

definition send_then ::
  "platform \<Rightarrow> session option \<Rightarrow> nat \<Rightarrow> jsstring option
     \<Rightarrow> conversation list http_response promise
     \<Rightarrow> chat_response option \<Rightarrow> chat_state \<Rightarrow> chat_state run" where
  "send_then plat sess t cur net_list data s =
     (case data of
        None \<Rightarrow> Completed (send_malformed t s)
      | Some d \<Rightarrow>
          (case response d of
             None \<Rightarrow> Completed (send_malformed t s)
           | Some r \<Rightarrow>
               (case (content r, conversation_id d) of
                  (Some c, Some cid) \<Rightarrow>
                    (if c \<noteq> [] \<and> cid \<noteq> []
                     then send_accept plat sess t cur net_list r c cid s
                     else Completed (send_malformed t s))
                | _ \<Rightarrow> Completed (send_malformed t s))))"

definition send_catch :: "platform \<Rightarrow> nat \<Rightarrow> chat_state \<Rightarrow> chat_state" where
  "send_catch plat t s = s\<lparr>messages := messages s @ [sendErrorMessage plat t]\<rparr>"

text \<open>
  The promise chain behind the request: \<^verbatim>\<open>fetchWithTimeout\<close>, the two \<^verbatim>\<open>.then\<close>
  callbacks, \<^verbatim>\<open>.catch\<close> and \<^verbatim>\<open>.finally\<close>. The \<^verbatim>\<open>try\<close> around the chain catches only
  what the call throws synchronously, which nothing in it does.
\<close>

definition send_settle ::
  "platform \<Rightarrow> session option \<Rightarrow> nat \<Rightarrow> jsstring option
     \<Rightarrow> chat_response http_response promise \<Rightarrow> conversation list http_response promise
     \<Rightarrow> chat_state \<Rightarrow> chat_state run" where
  "send_settle plat sess now cur net_send net_list s1 =
     (case fetchWithTimeout FETCH_TIMEOUT net_send of
        Pending \<Rightarrow> Suspended s1
      | Rejected t e \<Rightarrow> Completed (loading_finally (send_catch plat (now + t) s1))
      | Fulfilled t resp \<Rightarrow>
          (if \<not> ok resp then Completed (loading_finally (send_catch plat (now + t) s1))
           else
             (case body_json resp of
                NotJSON \<Rightarrow> Completed (loading_finally (send_catch plat (now + t) s1))
              | JNull \<Rightarrow>
                  map_run loading_finally (send_then plat sess (now + t) cur net_list None s1)
              | JValue d \<Rightarrow>
                  map_run loading_finally
                    (send_then plat sess (now + t) cur net_list (Some d) s1))))"

text \<open>
  \<^verbatim>\<open>handleSendMessage\<close>, lines 380 to 503 of the source: the two guards, then the
  dispatch and the promise chain.
\<close>

definition handleSendMessage ::
  "platform \<Rightarrow> session option \<Rightarrow> nat
     \<Rightarrow> chat_response http_response promise \<Rightarrow> conversation list http_response promise
     \<Rightarrow> chat_state \<Rightarrow> chat_state run" where
  "handleSendMessage plat sess now net_send net_list s =
     (if trim (inputText s) = [] then Completed s
      else
        (case sess of
           None \<Rightarrow> Completed (s\<lparr>messages := messages s @ [authErrorMessage now]\<rparr>)
         | Some se \<Rightarrow>
             send_settle plat sess now (currentConversationId s) net_send net_list
               (send_dispatch se now s)))"

section \<open>Concrete inputs\<close>

text \<open>
  A signed-in session, states of the component and answers of the server at which the
  operations are run: a new chat with the text \<open>hello\<close> typed, an open conversation
  \<open>c1\<close>, and a state whose input is white space only.
\<close>

definition alice :: session where
  "alice = \<lparr>access_token = str ''tok''\<rparr>"

definition blank_state :: chat_state where
  "blank_state =
     \<lparr>messages = [], inputText = [0x20, 0x9, 0x3000, 0xA], isLoading = False,
      isLoadingConversations = False, conversations = [], currentConversationId = None,
      requests = []\<rparr>"

definition fresh_state :: chat_state where
  "fresh_state =
     \<lparr>messages = [], inputText = str ''hello'', isLoading = False,
      isLoadingConversations = False, conversations = [], currentConversationId = None,
      requests = []\<rparr>"

definition first_conversation :: conversation where
  "first_conversation = \<lparr>c_id = str ''c1'', c_title = str ''hello''\<rparr>"

definition open_state :: chat_state where
  "open_state =
     \<lparr>messages = [userMessage 10 (str ''hello''),
                  \<lparr>m_id = Some (str ''m1''), m_text = str ''hi there'', m_sender = Bot,
                   m_timestamp = Parsed (str ''2024-01-01T00:00:00Z'')\<rparr>],
      inputText = str ''more'', isLoading = False,
      isLoadingConversations = False, conversations = [first_conversation],
      currentConversationId = Some (str ''c1''),
      requests = []\<rparr>"

definition hello_answer :: assistant_message where
  "hello_answer =
     \<lparr>am_id = Some (str ''m1''), content = Some (str ''hi there''),
      created_at = Some (str ''2024-01-01T00:00:00Z'')\<rparr>"

definition hello_body :: chat_response where
  "hello_body = \<lparr>conversation_id = Some (str ''c1''), response = Some hello_answer\<rparr>"

definition hello_reply :: "chat_response http_response" where
  "hello_reply = \<lparr>status = 200, body_text = [], body_json = JValue hello_body\<rparr>"

definition answer_without_id :: assistant_message where
  "answer_without_id =
     \<lparr>am_id = None, content = Some (str ''hi there''),
      created_at = Some (str ''2024-01-01T00:00:00Z'')\<rparr>"

definition reply_without_id :: "chat_response http_response" where
  "reply_without_id =
     \<lparr>status = 200, body_text = [],
      body_json =
        JValue \<lparr>conversation_id = Some (str ''c1''), response = Some answer_without_id\<rparr>\<rparr>"

definition null_reply :: "chat_response http_response" where
  "null_reply = \<lparr>status = 200, body_text = [], body_json = JNull\<rparr>"

definition one_conversation :: "conversation list http_response" where
  "one_conversation =
     \<lparr>status = 200, body_text = [], body_json = JValue [first_conversation]\<rparr>"

definition deleted_reply :: "unit http_response" where
  "deleted_reply = \<lparr>status = 204, body_text = [], body_json = NotJSON\<rparr>"

definition server_down :: "'b http_response" where
  "server_down =
     \<lparr>status = 500, body_text = str ''Internal Server Error'', body_json = NotJSON\<rparr>"

definition history_reply :: "server_message list option http_response" where
  "history_reply =
     \<lparr>status = 200, body_text = [],
      body_json = JValue (Some
        [\<lparr>sm_id = str ''u1'', sm_content = str ''hello'', sm_role = str ''user'',
          sm_created_at = str ''2024-01-01T00:00:00Z''\<rparr>,
         \<lparr>sm_id = str ''m1'', sm_content = str ''hi there'', sm_role = str ''assistant'',
          sm_created_at = str ''2024-01-01T00:00:01Z''\<rparr>])\<rparr>"

text \<open>The equations that evaluate an operation at a concrete input.\<close>

lemmas list_defs =
  fetchConversations_def list_try_def list_catch_def list_finally_def fetchWithTimeout_def
  FETCH_TIMEOUT_def ok_def

lemmas send_defs =
  handleSendMessage_def send_settle_def send_then_def send_accept_def send_catch_def
  send_malformed_def send_dispatch_def requestBody_def truthy_def loading_finally_def
  trim_def isWhiteSpace_def

lemmas load_defs =
  loadConversation_def load_dispatch_def load_try_def load_catch_def loadedMessage_def

lemmas delete_defs =
  handleDeleteConversation_def delete_dispatch_def delete_catch_def handleNewChat_def

section \<open>The timeout and the list refresh\<close>

lemma fetchWithTimeout_settles: "fetchWithTimeout timeout p \<noteq> Pending"
  by (simp add: fetchWithTimeout_def split: promise.splits)

lemma fetchWithTimeout_late:
  "timeout < t \<Longrightarrow> fetchWithTimeout timeout (Fulfilled t r) = Rejected timeout timed_out"
  by (simp add: fetchWithTimeout_def)

lemma fetchWithTimeout_never: "fetchWithTimeout timeout Pending = Rejected timeout timed_out"
  by (simp add: fetchWithTimeout_def)

lemma timed_out_is_no_server_error: "timed_out \<noteq> server_error st txt"
  by (simp add: timed_out_def server_error_def str_def)

lemma fetchConversations_signed_in:
  "\<exists>s'. fetchConversations plat (Some se) now net s = Completed s'
     \<and> requests s' = requests s @ [GET_conversations (access_token se)]
     \<and> currentConversationId s' = currentConversationId s
     \<and> inputText s' = inputText s
     \<and> isLoading s' = isLoading s
     \<and> (messages s' = messages s \<or> (\<exists>u. messages s' = messages s @ [diagnosticMessage plat u]))"
  by (auto simp: fetchConversations_def fetchWithTimeout_def list_try_def list_catch_def
        list_finally_def Let_def split: promise.splits json_body.splits)

lemma fetchConversations_frame:
  "\<exists>s'. fetchConversations plat sess now net s = Completed s'
     \<and> currentConversationId s' = currentConversationId s
     \<and> inputText s' = inputText s
     \<and> isLoading s' = isLoading s"
proof (cases sess)
  case None
  then show ?thesis by (simp add: fetchConversations_def)
next
  case (Some se)
  then show ?thesis
    using fetchConversations_signed_in [of plat se now net s] by blast
qed

section \<open>Blank input\<close>

lemma trim_Nil_iff: "trim s = [] \<longleftrightarrow> (\<forall>c\<in>set s. isWhiteSpace c)"
proof
  assume "trim s = []"
  then have "dropWhile isWhiteSpace (rev (dropWhile isWhiteSpace s)) = []"
    by (simp add: trim_def)
  then have "\<forall>c\<in>set (dropWhile isWhiteSpace s). isWhiteSpace c"
    by simp
  then have "dropWhile isWhiteSpace s = []"
    by (metis hd_dropWhile hd_in_set)
  then show "\<forall>c\<in>set s. isWhiteSpace c"
    by simp
next
  assume "\<forall>c\<in>set s. isWhiteSpace c"
  then show "trim s = []"
    by (auto simp: trim_def dest: set_dropWhileD)
qed

text \<open>
  Claim C8. When the input text is empty or consists only of white space (the code units
  that \<^verbatim>\<open>trim\<close> strips), \<^verbatim>\<open>handleSendMessage\<close> returns at once and leaves the whole
  state as it was: no request is added to the trace, no entry to the message list and
  none to the conversation list.
\<close>

theorem blank_send_is_noop:
  assumes "\<forall>c\<in>set (inputText s). isWhiteSpace c"
  shows "handleSendMessage plat sess now net_send net_list s = Completed s"
proof -
  have "trim (inputText s) = []"
    using assms by (simp add: trim_Nil_iff)
  then show ?thesis
    by (simp add: handleSendMessage_def)
qed

theorem blank_send_is_noop_witness:
  "handleSendMessage Web (Some alice) 1000 Pending Pending blank_state = Completed blank_state"
proof -
  have h: "\<forall>c\<in>set (inputText blank_state). isWhiteSpace c"
    by (simp add: blank_state_def isWhiteSpace_def)
  show ?thesis
    by (rule blank_send_is_noop [OF h])
qed

section \<open>Identifier reconciliation on a successful send\<close>

lemma send_settle_accept:
  assumes "net_send = Fulfilled t resp" and "t < FETCH_TIMEOUT" and "ok resp"
    and "body_json resp = JValue d" and "response d = Some r"
    and "content r = Some c" and "c \<noteq> []" and "conversation_id d = Some cid" and "cid \<noteq> []"
  shows "send_settle plat sess now cur net_send net_list s1 =
           map_run loading_finally (send_accept plat sess (now + t) cur net_list r c cid s1)"
  using assms by (simp add: send_settle_def fetchWithTimeout_def send_then_def)

text \<open>
  Claim C1. A send is successful when the server answers 2xx within the timeout with a body
  that carries a non-empty \<^verbatim>\<open>conversation_id\<close> and a \<^verbatim>\<open>response\<close> with non-empty
  \<^verbatim>\<open>content\<close>. After a successful send from a state without a current identifier, the
  current identifier is the one the server returned, and the trace has grown by the
  \<^verbatim>\<open>POST /chat\<close> (without identifier) and exactly one \<^verbatim>\<open>GET /conversations\<close>. After
  a successful send from a state whose current identifier is the one the server echoes,
  the identifier is unchanged and the trace has grown by the \<^verbatim>\<open>POST /chat\<close> only.
\<close>

theorem send_reconciles_identifier:
  assumes "trim (inputText s) \<noteq> []"
    and "net_send = Fulfilled t resp" and "t < FETCH_TIMEOUT" and "ok resp"
    and "body_json resp = JValue d" and "response d = Some r"
    and "content r = Some c" and "c \<noteq> []" and "conversation_id d = Some cid" and "cid \<noteq> []"
  shows "(currentConversationId s = None \<longrightarrow>
            (\<exists>s'. handleSendMessage plat (Some se) now net_send net_list s = Completed s'
               \<and> currentConversationId s' = Some cid
               \<and> requests s' = requests s @
                    [POST_chat (access_token se)
                       \<lparr>req_message = inputText s, req_conversation_id = None\<rparr>,
                     GET_conversations (access_token se)]))
       \<and> (currentConversationId s = Some cid \<longrightarrow>
            (\<exists>s'. handleSendMessage plat (Some se) now net_send net_list s = Completed s'
               \<and> currentConversationId s' = Some cid
               \<and> requests s' = requests s @
                    [POST_chat (access_token se)
                       \<lparr>req_message = inputText s, req_conversation_id = Some cid\<rparr>]))"
proof (intro conjI impI)
  let ?s1 = "send_dispatch se now s"
  have run: "handleSendMessage plat (Some se) now net_send net_list s =
      map_run loading_finally
        (send_accept plat (Some se) (now + t) (currentConversationId s) net_list r c cid ?s1)"
    using assms by (simp add: handleSendMessage_def send_settle_accept)
  {
    assume cur: "currentConversationId s = None"
    let ?bot = "\<lparr>m_id = am_id r, m_text = c, m_sender = Bot,
             m_timestamp =
               (case created_at r of
                  None \<Rightarrow> Clock (now + t)
                | Some ca \<Rightarrow> if ca \<noteq> [] then Parsed ca else Clock (now + t))\<rparr>"
    let ?s3 = "?s1\<lparr>messages := messages ?s1 @ [?bot], currentConversationId := Some cid\<rparr>"
    have acc: "send_accept plat (Some se) (now + t) (currentConversationId s) net_list r c cid ?s1
        = fetchConversations plat (Some se) (now + t) net_list ?s3"
      by (simp add: send_accept_def cur truthy_def Let_def)
    obtain s4 where s4: "fetchConversations plat (Some se) (now + t) net_list ?s3 = Completed s4"
      "requests s4 = requests ?s3 @ [GET_conversations (access_token se)]"
      "currentConversationId s4 = currentConversationId ?s3"
      using fetchConversations_signed_in [of plat se "now + t" net_list ?s3] by blast
    have "handleSendMessage plat (Some se) now net_send net_list s = Completed (loading_finally s4)"
      by (simp add: run acc s4(1))
    moreover have "currentConversationId (loading_finally s4) = Some cid"
      by (simp add: loading_finally_def s4(3))
    moreover have "requests (loading_finally s4) = requests s @
                    [POST_chat (access_token se)
                       \<lparr>req_message = inputText s, req_conversation_id = None\<rparr>,
                     GET_conversations (access_token se)]"
      by (simp add: loading_finally_def s4(2) send_dispatch_def requestBody_def cur truthy_def)
    ultimately show "\<exists>s'. handleSendMessage plat (Some se) now net_send net_list s = Completed s'
               \<and> currentConversationId s' = Some cid
               \<and> requests s' = requests s @
                    [POST_chat (access_token se)
                       \<lparr>req_message = inputText s, req_conversation_id = None\<rparr>,
                     GET_conversations (access_token se)]"
      by blast
  }
  {
    assume cur: "currentConversationId s = Some cid"
    show "\<exists>s'. handleSendMessage plat (Some se) now net_send net_list s = Completed s'
               \<and> currentConversationId s' = Some cid
               \<and> requests s' = requests s @
                    [POST_chat (access_token se)
                       \<lparr>req_message = inputText s, req_conversation_id = Some cid\<rparr>]"
      using assms(10)
      by (simp add: run send_accept_def cur truthy_def Let_def loading_finally_def
            send_dispatch_def requestBody_def)
  }
qed

theorem send_reconciles_identifier_witness:
  "(\<exists>s'. handleSendMessage Web (Some alice) 1000 (Fulfilled 120 hello_reply)
            (Fulfilled 80 one_conversation) fresh_state = Completed s'
         \<and> currentConversationId s' = Some (str ''c1'')
         \<and> requests s' = requests fresh_state @
              [POST_chat (access_token alice)
                 \<lparr>req_message = inputText fresh_state, req_conversation_id = None\<rparr>,
               GET_conversations (access_token alice)])
   \<and> (\<exists>s'. handleSendMessage Web (Some alice) 1000 (Fulfilled 120 hello_reply)
            (Fulfilled 80 one_conversation) open_state = Completed s'
         \<and> currentConversationId s' = Some (str ''c1'')
         \<and> requests s' = requests open_state @
              [POST_chat (access_token alice)
                 \<lparr>req_message = inputText open_state,
                  req_conversation_id = Some (str ''c1'')\<rparr>])"
proof -
  have t: "(120::nat) < FETCH_TIMEOUT"
    by (simp add: FETCH_TIMEOUT_def)
  have k: "ok hello_reply"
    by (simp add: ok_def hello_reply_def)
  have b: "body_json hello_reply = JValue hello_body"
    by (simp add: hello_reply_def)
  have r: "response hello_body = Some hello_answer"
    by (simp add: hello_body_def)
  have c: "content hello_answer = Some (str ''hi there'')" "str ''hi there'' \<noteq> []"
    by (simp_all add: hello_answer_def str_def)
  have i: "conversation_id hello_body = Some (str ''c1'')" "str ''c1'' \<noteq> []"
    by (simp_all add: hello_body_def str_def)
  have f: "trim (inputText fresh_state) \<noteq> []"
    by (simp add: fresh_state_def trim_def str_def isWhiteSpace_def)
  have p: "trim (inputText open_state) \<noteq> []"
    by (simp add: open_state_def trim_def str_def isWhiteSpace_def)
  have f0: "currentConversationId fresh_state = None"
    by (simp add: fresh_state_def)
  have p0: "currentConversationId open_state = Some (str ''c1'')"
    by (simp add: open_state_def)
  note new = send_reconciles_identifier [OF f refl t k b r c i, THEN conjunct1, rule_format, OF f0]
  note old = send_reconciles_identifier [OF p refl t k b r c i, THEN conjunct2, rule_format, OF p0]
  show ?thesis
    by (rule conjI) (rule new, rule old)
qed

section \<open>Delete conversation\<close>

text \<open>
  Claim C7. After a delete that the server answers 2xx, the trace has grown by the
  \<^verbatim>\<open>DELETE\<close> and one \<^verbatim>\<open>GET /conversations\<close>, and the conversation list is the one the
  refresh leaves. When the deleted conversation was the current one, the state is that of a
  new conversation: no identifier, no messages, empty input. Otherwise the identifier and
  the input are untouched and the message list is exactly what the refresh alone leaves:
  the old list, followed by the refresh's diagnostic entry when the refresh failed.
\<close>

theorem delete_success_refreshes:
  assumes "net_delete = Fulfilled t resp" and "ok resp"
  shows "\<exists>s'. handleDeleteConversation plat (Some se) now conversationId net_delete net_list s
             = Completed s'
     \<and> requests s' = requests s @
          [DELETE_conversation conversationId (access_token se),
           GET_conversations (access_token se)]
     \<and> conversations s' =
          conversations (state_of (fetchConversations plat (Some se) (now + t) net_list s))
     \<and> (currentConversationId s = Some conversationId \<longrightarrow>
          currentConversationId s' = None \<and> messages s' = [] \<and> inputText s' = [])
     \<and> (currentConversationId s \<noteq> Some conversationId \<longrightarrow>
          currentConversationId s' = currentConversationId s
          \<and> inputText s' = inputText s
          \<and> messages s' =
              messages (state_of (fetchConversations plat (Some se) (now + t) net_list s))
          \<and> (messages s' = messages s
               \<or> (\<exists>u. messages s' = messages s @ [diagnosticMessage plat u])))"
proof -
  let ?s1 = "delete_dispatch se conversationId s"
  obtain s2 where s2: "fetchConversations plat (Some se) (now + t) net_list ?s1 = Completed s2"
    "requests s2 = requests ?s1 @ [GET_conversations (access_token se)]"
    "currentConversationId s2 = currentConversationId ?s1"
    "inputText s2 = inputText ?s1"
    "messages s2 = messages ?s1 \<or> (\<exists>u. messages s2 = messages ?s1 @ [diagnosticMessage plat u])"
    using fetchConversations_signed_in [of plat se "now + t" net_list ?s1] by blast
  have same:
    "messages (state_of (fetchConversations plat (Some se) (now + t) net_list s)) = messages s2"
    "conversations (state_of (fetchConversations plat (Some se) (now + t) net_list s))
       = conversations s2"
    using s2(1)
    by (auto simp: fetchConversations_def delete_dispatch_def list_try_def list_catch_def
          list_finally_def Let_def split: promise.splits sum.splits if_splits json_body.splits)
  let ?s' = "loading_finally (if currentConversationId s = Some conversationId
                              then handleNewChat s2 else s2)"
  have run: "handleDeleteConversation plat (Some se) now conversationId net_delete net_list s
      = Completed ?s'"
    using assms by (simp add: handleDeleteConversation_def s2(1))
  have "requests ?s' = requests s @
          [DELETE_conversation conversationId (access_token se),
           GET_conversations (access_token se)]"
    by (simp add: loading_finally_def handleNewChat_def s2(2) delete_dispatch_def)
  moreover have "conversations ?s' =
          conversations (state_of (fetchConversations plat (Some se) (now + t) net_list s))"
    by (simp add: same loading_finally_def handleNewChat_def)
  moreover have "currentConversationId s = Some conversationId \<longrightarrow>
          currentConversationId ?s' = None \<and> messages ?s' = [] \<and> inputText ?s' = []"
    by (simp add: loading_finally_def handleNewChat_def)
  moreover have "currentConversationId s \<noteq> Some conversationId \<longrightarrow>
          currentConversationId ?s' = currentConversationId s
          \<and> inputText ?s' = inputText s
          \<and> messages ?s' =
              messages (state_of (fetchConversations plat (Some se) (now + t) net_list s))
          \<and> (messages ?s' = messages s
               \<or> (\<exists>u. messages ?s' = messages s @ [diagnosticMessage plat u]))"
    using s2(3,4,5) by (simp add: same loading_finally_def delete_dispatch_def)
  ultimately show ?thesis
    using run by blast
qed

theorem delete_success_refreshes_witness:
  "\<exists>s'. handleDeleteConversation Web (Some alice) 1000 (str ''c1'') (Fulfilled 60 deleted_reply)
           (Fulfilled 80 one_conversation) open_state = Completed s'
     \<and> requests s' = requests open_state @
          [DELETE_conversation (str ''c1'') (access_token alice),
           GET_conversations (access_token alice)]
     \<and> currentConversationId s' = None \<and> messages s' = [] \<and> inputText s' = []"
proof -
  have k: "ok deleted_reply"
    by (simp add: ok_def deleted_reply_def)
  have c: "currentConversationId open_state = Some (str ''c1'')"
    by (simp add: open_state_def)
  from delete_success_refreshes [OF refl k, where plat = Web and se = alice and now = 1000
      and conversationId = "str ''c1''" and net_list = "Fulfilled 80 one_conversation"
      and s = open_state] c
  show ?thesis
    by blast
qed

section \<open>The composed input text\<close>

lemma send_accept_frame:
  "\<exists>s'. send_accept plat sess t cur net_list r c cid s = Completed s'
     \<and> inputText s' = inputText s \<and> isLoading s' = isLoading s
     \<and> (currentConversationId s' = currentConversationId s
        \<or> currentConversationId s' = Some cid)"
proof (cases "truthy cur")
  case True
  then show ?thesis
    by (simp add: send_accept_def Let_def)
next
  case False
  let ?bot = "\<lparr>m_id = am_id r, m_text = c, m_sender = Bot,
             m_timestamp =
               (case created_at r of
                  None \<Rightarrow> Clock t
                | Some ca \<Rightarrow> if ca \<noteq> [] then Parsed ca else Clock t)\<rparr>"
  let ?s3 = "s\<lparr>messages := messages s @ [?bot], currentConversationId := Some cid\<rparr>"
  have acc: "send_accept plat sess t cur net_list r c cid s
      = fetchConversations plat sess t net_list ?s3"
    using False by (simp add: send_accept_def Let_def)
  obtain s' where "fetchConversations plat sess t net_list ?s3 = Completed s'"
    "inputText s' = inputText ?s3" "isLoading s' = isLoading ?s3"
    "currentConversationId s' = currentConversationId ?s3"
    using fetchConversations_frame [of plat sess t net_list ?s3] by blast
  then show ?thesis
    by (simp add: acc)
qed

lemma send_then_frame:
  "\<exists>s'. send_then plat sess t cur net_list data s = Completed s'
     \<and> inputText s' = inputText s \<and> isLoading s' = isLoading s"
proof -
  have acc: "\<exists>s'. send_accept plat sess t cur net_list r c cid s = Completed s'
      \<and> inputText s' = inputText s \<and> isLoading s' = isLoading s" for r c cid
    using send_accept_frame [of plat sess t cur net_list r c cid s] by blast
  show ?thesis
    using acc by (simp add: send_then_def send_malformed_def split: option.splits)
qed

lemma send_settle_frame:
  "\<exists>s'. send_settle plat sess now cur net_send net_list s1 = Completed s'
     \<and> inputText s' = inputText s1 \<and> isLoading s' = False"
proof (cases "fetchWithTimeout FETCH_TIMEOUT net_send")
  case Pending
  then show ?thesis
    by (simp add: fetchWithTimeout_settles)
next
  case (Rejected t e)
  then show ?thesis
    by (simp add: send_settle_def send_catch_def loading_finally_def)
next
  case (Fulfilled t resp)
  show ?thesis
  proof (cases "ok resp")
    case False
    then show ?thesis
      using Fulfilled by (simp add: send_settle_def send_catch_def loading_finally_def)
  next
    case True
    show ?thesis
    proof (cases "body_json resp")
      case NotJSON
      then show ?thesis
        using Fulfilled True by (simp add: send_settle_def send_catch_def loading_finally_def)
    next
      case JNull
      obtain s' where "send_then plat sess (now + t) cur net_list None s1 = Completed s'"
        "inputText s' = inputText s1"
        using send_then_frame [of plat sess "now + t" cur net_list None s1] by blast
      then show ?thesis
        using Fulfilled True JNull by (simp add: send_settle_def loading_finally_def)
    next
      case (JValue d)
      obtain s' where "send_then plat sess (now + t) cur net_list (Some d) s1 = Completed s'"
        "inputText s' = inputText s1"
        using send_then_frame [of plat sess "now + t" cur net_list "Some d" s1] by blast
      then show ?thesis
        using Fulfilled True JValue by (simp add: send_settle_def loading_finally_def)
    qed
  qed
qed

text \<open>
  Claim C10. With text that is not blank and a session present, \<^verbatim>\<open>handleSendMessage\<close>
  is the promise chain run from the dispatch state, and in that state (reached before the
  request has any outcome) the user's message is appended and the input is empty; the
  input is still empty in the final state, whatever the outcome of the request. With text
  that is not blank and no session, the input is left as it was and the only change is the
  authentication-error message appended to the message list.
\<close>

theorem send_clears_input:
  assumes "trim (inputText s) \<noteq> []"
  shows "(sess = Some se \<longrightarrow>
            handleSendMessage plat sess now net_send net_list s
              = send_settle plat sess now (currentConversationId s) net_send net_list
                  (send_dispatch se now s)
            \<and> messages (send_dispatch se now s) = messages s @ [userMessage now (inputText s)]
            \<and> inputText (send_dispatch se now s) = []
            \<and> (\<exists>s'. handleSendMessage plat sess now net_send net_list s = Completed s'
                   \<and> inputText s' = []))
       \<and> (sess = None \<longrightarrow>
            handleSendMessage plat sess now net_send net_list s
              = Completed (s\<lparr>messages := messages s @ [authErrorMessage now]\<rparr>)
            \<and> (\<exists>s'. handleSendMessage plat sess now net_send net_list s = Completed s'
                   \<and> inputText s' = inputText s))"
proof (intro conjI impI)
  assume sess: "sess = Some se"
  show run: "handleSendMessage plat sess now net_send net_list s
      = send_settle plat sess now (currentConversationId s) net_send net_list
          (send_dispatch se now s)"
    using assms sess by (simp add: handleSendMessage_def)
  show "messages (send_dispatch se now s) = messages s @ [userMessage now (inputText s)]"
    by (simp add: send_dispatch_def)
  show "inputText (send_dispatch se now s) = []"
    by (simp add: send_dispatch_def)
  then show "\<exists>s'. handleSendMessage plat sess now net_send net_list s = Completed s'
      \<and> inputText s' = []"
    using send_settle_frame [of plat sess now "currentConversationId s" net_send net_list
        "send_dispatch se now s"]
    by (auto simp: run)
next
  assume "sess = None"
  then show "handleSendMessage plat sess now net_send net_list s
      = Completed (s\<lparr>messages := messages s @ [authErrorMessage now]\<rparr>)"
    using assms by (simp add: handleSendMessage_def)
  then show "\<exists>s'. handleSendMessage plat sess now net_send net_list s = Completed s'
      \<and> inputText s' = inputText s"
    by simp
qed

theorem send_clears_input_witness:
  "(\<exists>s'. handleSendMessage Web (Some alice) 1000 (Rejected 40 TypeError) Pending fresh_state
            = Completed s' \<and> inputText s' = [])
   \<and> (\<exists>s'. handleSendMessage Web None 1000 (Rejected 40 TypeError) Pending fresh_state
            = Completed s' \<and> inputText s' = inputText fresh_state)"
proof -
  have f: "trim (inputText fresh_state) \<noteq> []"
    by (simp add: fresh_state_def trim_def str_def isWhiteSpace_def)
  note a = send_clears_input [OF f, where sess = "Some alice" and se = alice, THEN conjunct1,
      rule_format, OF refl, THEN conjunct2, THEN conjunct2, THEN conjunct2]
  note b = send_clears_input [OF f, where sess = None, THEN conjunct2, rule_format, OF refl,
      THEN conjunct2]
  show ?thesis
    by (rule conjI) (rule a, rule b)
qed

section \<open>When the current identifier moves\<close>

lemma send_then_identifier:
  "\<exists>s'. send_then plat sess t cur net_list data s = Completed s'
     \<and> (currentConversationId s' = currentConversationId s
        \<or> (\<exists>d r c cid. data = Some d \<and> response d = Some r \<and> content r = Some c \<and> c \<noteq> []
              \<and> conversation_id d = Some cid \<and> cid \<noteq> []
              \<and> currentConversationId s' = Some cid))"
proof (cases data)
  case None
  then show ?thesis
    by (simp add: send_then_def send_malformed_def)
next
  case (Some d)
  show ?thesis
  proof (cases "response d")
    case None
    then show ?thesis
      using Some by (simp add: send_then_def send_malformed_def)
  next
    case r: (Some r)
    show ?thesis
    proof (cases "\<exists>c cid. content r = Some c \<and> c \<noteq> [] \<and> conversation_id d = Some cid \<and> cid \<noteq> []")
      case False
      then show ?thesis
        using Some r by (auto simp: send_then_def send_malformed_def split: option.splits)
    next
      case True
      then obtain c cid where wf: "content r = Some c" "c \<noteq> []"
        "conversation_id d = Some cid" "cid \<noteq> []"
        by blast
      then have "send_then plat sess t cur net_list data s
          = send_accept plat sess t cur net_list r c cid s"
        using Some r by (simp add: send_then_def)
      then show ?thesis
        using send_accept_frame [of plat sess t cur net_list r c cid s] Some r wf by auto
    qed
  qed
qed

lemma send_settle_identifier:
  "\<exists>s'. send_settle plat sess now cur net_send net_list s1 = Completed s'
     \<and> (currentConversationId s' = currentConversationId s1
        \<or> (\<exists>t resp d r c cid. net_send = Fulfilled t resp \<and> t \<le> FETCH_TIMEOUT \<and> ok resp
              \<and> body_json resp = JValue d \<and> response d = Some r
              \<and> content r = Some c \<and> c \<noteq> [] \<and> conversation_id d = Some cid \<and> cid \<noteq> []
              \<and> currentConversationId s' = Some cid))"
proof (cases "fetchWithTimeout FETCH_TIMEOUT net_send")
  case Pending
  then show ?thesis
    by (simp add: fetchWithTimeout_settles)
next
  case (Rejected t e)
  then show ?thesis
    by (simp add: send_settle_def send_catch_def loading_finally_def)
next
  case (Fulfilled t resp)
  then have net: "net_send = Fulfilled t resp" "t \<le> FETCH_TIMEOUT"
    by (auto simp: fetchWithTimeout_def split: promise.splits if_splits)
  show ?thesis
  proof (cases "ok resp")
    case False
    then show ?thesis
      using Fulfilled by (simp add: send_settle_def send_catch_def loading_finally_def)
  next
    case True
    show ?thesis
    proof (cases "body_json resp")
      case NotJSON
      then show ?thesis
        using Fulfilled True by (simp add: send_settle_def send_catch_def loading_finally_def)
    next
      case JNull
      obtain s' where "send_then plat sess (now + t) cur net_list None s1 = Completed s'"
        "currentConversationId s' = currentConversationId s1"
        using send_then_identifier [of plat sess "now + t" cur net_list None s1] by auto
      then show ?thesis
        using Fulfilled True JNull by (simp add: send_settle_def loading_finally_def)
    next
      case (JValue d)
      obtain s' where s': "send_then plat sess (now + t) cur net_list (Some d) s1 = Completed s'"
        "currentConversationId s' = currentConversationId s1
         \<or> (\<exists>r c cid. response d = Some r \<and> content r = Some c \<and> c \<noteq> []
              \<and> conversation_id d = Some cid \<and> cid \<noteq> []
              \<and> currentConversationId s' = Some cid)"
        using send_then_identifier [of plat sess "now + t" cur net_list "Some d" s1] by auto
      have "send_settle plat sess now cur net_send net_list s1 = Completed (loading_finally s')"
        using Fulfilled True JValue s'(1) by (simp add: send_settle_def)
      moreover have "currentConversationId (loading_finally s') = currentConversationId s'"
        by (simp add: loading_finally_def)
      ultimately show ?thesis
        using s'(2) net True JValue by auto
    qed
  qed
qed

lemma handleSendMessage_identifier:
  "\<exists>s'. handleSendMessage plat sess now net_send net_list s = Completed s'
     \<and> (currentConversationId s' = currentConversationId s
        \<or> (\<exists>t resp d r c cid. net_send = Fulfilled t resp \<and> t \<le> FETCH_TIMEOUT \<and> ok resp
              \<and> body_json resp = JValue d \<and> response d = Some r
              \<and> content r = Some c \<and> c \<noteq> [] \<and> conversation_id d = Some cid \<and> cid \<noteq> []
              \<and> currentConversationId s' = Some cid))"
proof (cases "trim (inputText s) = []")
  case True
  then show ?thesis
    by (simp add: handleSendMessage_def)
next
  case False
  show ?thesis
  proof (cases sess)
    case None
    then show ?thesis
      using False by (simp add: handleSendMessage_def)
  next
    case (Some se)
    have "currentConversationId (send_dispatch se now s) = currentConversationId s"
      by (simp add: send_dispatch_def)
    then show ?thesis
      using False Some
        send_settle_identifier [of plat sess now "currentConversationId s" net_send net_list
          "send_dispatch se now s"]
      by (simp add: handleSendMessage_def)
  qed
qed

lemma delete_catch_identifier:
  "currentConversationId (state_of (delete_catch t closure s)) = currentConversationId s"
  by (simp add: delete_catch_def loading_finally_def split: sum.splits bool.splits)

lemma handleDeleteConversation_identifier:
  assumes "currentConversationId
             (state_of (handleDeleteConversation plat sess now conversationId net_delete net_list s))
           \<noteq> currentConversationId s"
  shows "\<exists>t resp. net_delete = Fulfilled t resp \<and> ok resp
           \<and> currentConversationId s = Some conversationId
           \<and> currentConversationId
               (state_of (handleDeleteConversation plat sess now conversationId net_delete net_list s))
             = None"
proof (cases sess)
  case None
  then show ?thesis
    using assms by (simp add: handleDeleteConversation_def)
next
  case (Some se)
  let ?s1 = "delete_dispatch se conversationId s"
  have s1: "currentConversationId ?s1 = currentConversationId s"
    by (simp add: delete_dispatch_def)
  show ?thesis
  proof (cases net_delete)
    case Pending
    then show ?thesis
      using assms Some s1 by (simp add: handleDeleteConversation_def)
  next
    case (Rejected t e)
    then show ?thesis
      using assms Some s1 by (simp add: handleDeleteConversation_def delete_catch_identifier)
  next
    case (Fulfilled t resp)
    show ?thesis
    proof (cases "ok resp")
      case False
      then show ?thesis
        using assms Some s1 Fulfilled
        by (simp add: handleDeleteConversation_def delete_catch_identifier Let_def)
    next
      case True
      obtain s2 where s2: "fetchConversations plat sess (now + t) net_list ?s1 = Completed s2"
        "currentConversationId s2 = currentConversationId ?s1"
        using fetchConversations_frame [of plat sess "now + t" net_list ?s1] by blast
      have run: "handleDeleteConversation plat sess now conversationId net_delete net_list s
          = Completed (loading_finally
              (if currentConversationId s = Some conversationId then handleNewChat s2 else s2))"
        using Some Fulfilled True s2(1) by (simp add: handleDeleteConversation_def)
      show ?thesis
        using assms s2(2) s1 unfolding run
        by (auto simp: Fulfilled True loading_finally_def handleNewChat_def split: if_splits)
    qed
  qed
qed

lemma loadConversation_identifier:
  "currentConversationId (state_of (loadConversation plat (Some se) now conversationId net s))
     = Some conversationId"
  by (simp add: loadConversation_def load_dispatch_def load_try_def load_catch_def
        loading_finally_def Let_def
      split: promise.splits json_body.splits option.splits prod.splits)

text \<open>
  Claim C2, as amended. For send message and delete conversation a failed call leaves the
  current identifier as it was: after a send it differs from the one before only when the
  server answered 2xx within the timeout with a well-formed body, and it is then the
  identifier of that body; after a delete it differs only when the server answered 2xx and
  the deleted conversation was the current one, and it is then absent. Load conversation
  makes the requested identifier current before the request is issued and keeps it after
  every outcome, failures included.
\<close>

theorem identifier_moves_only_when_acknowledged:
  "(currentConversationId (state_of (handleSendMessage plat sess now net_send net_list s))
      \<noteq> currentConversationId s \<longrightarrow>
      (\<exists>t resp d r c cid. net_send = Fulfilled t resp \<and> t \<le> FETCH_TIMEOUT \<and> ok resp
          \<and> body_json resp = JValue d \<and> response d = Some r
          \<and> content r = Some c \<and> c \<noteq> [] \<and> conversation_id d = Some cid \<and> cid \<noteq> []
          \<and> currentConversationId (state_of (handleSendMessage plat sess now net_send net_list s))
              = Some cid))
   \<and> (currentConversationId
         (state_of (handleDeleteConversation plat sess now conversationId net_delete net_list s))
      \<noteq> currentConversationId s \<longrightarrow>
      (\<exists>t resp. net_delete = Fulfilled t resp \<and> ok resp
          \<and> currentConversationId s = Some conversationId
          \<and> currentConversationId
               (state_of (handleDeleteConversation plat sess now conversationId net_delete net_list s))
              = None))
   \<and> currentConversationId (load_dispatch se conversationId s) = Some conversationId
   \<and> currentConversationId (state_of (loadConversation plat (Some se) now conversationId net_load s))
       = Some conversationId"
proof (intro conjI impI)
  assume moved: "currentConversationId (state_of (handleSendMessage plat sess now net_send net_list s))
      \<noteq> currentConversationId s"
  obtain s' where s': "handleSendMessage plat sess now net_send net_list s = Completed s'"
    "currentConversationId s' = currentConversationId s
        \<or> (\<exists>t resp d r c cid. net_send = Fulfilled t resp \<and> t \<le> FETCH_TIMEOUT \<and> ok resp
              \<and> body_json resp = JValue d \<and> response d = Some r
              \<and> content r = Some c \<and> c \<noteq> [] \<and> conversation_id d = Some cid \<and> cid \<noteq> []
              \<and> currentConversationId s' = Some cid)"
    using handleSendMessage_identifier [of plat sess now net_send net_list s] by blast
  from moved s'(1) have "currentConversationId s' \<noteq> currentConversationId s"
    by simp
  with s'(2) show "\<exists>t resp d r c cid. net_send = Fulfilled t resp \<and> t \<le> FETCH_TIMEOUT \<and> ok resp
          \<and> body_json resp = JValue d \<and> response d = Some r
          \<and> content r = Some c \<and> c \<noteq> [] \<and> conversation_id d = Some cid \<and> cid \<noteq> []
          \<and> currentConversationId (state_of (handleSendMessage plat sess now net_send net_list s))
              = Some cid"
    by (simp add: s'(1))
next
  assume "currentConversationId
         (state_of (handleDeleteConversation plat sess now conversationId net_delete net_list s))
      \<noteq> currentConversationId s"
  then show "\<exists>t resp. net_delete = Fulfilled t resp \<and> ok resp
          \<and> currentConversationId s = Some conversationId
          \<and> currentConversationId
               (state_of (handleDeleteConversation plat sess now conversationId net_delete net_list s))
              = None"
    by (rule handleDeleteConversation_identifier)
next
  show "currentConversationId (load_dispatch se conversationId s) = Some conversationId"
    by (simp add: load_dispatch_def)
next
  show "currentConversationId (state_of (loadConversation plat (Some se) now conversationId net_load s))
       = Some conversationId"
    by (rule loadConversation_identifier)
qed

theorem identifier_moves_only_when_acknowledged_witness:
  "(\<exists>t resp d r c cid. Fulfilled 120 hello_reply = Fulfilled t resp \<and> t \<le> FETCH_TIMEOUT \<and> ok resp
          \<and> body_json resp = JValue d \<and> response d = Some r
          \<and> content r = Some c \<and> c \<noteq> [] \<and> conversation_id d = Some cid \<and> cid \<noteq> []
          \<and> currentConversationId (state_of (handleSendMessage Web (Some alice) 1000
                (Fulfilled 120 hello_reply) (Fulfilled 80 one_conversation) fresh_state))
              = Some cid)
   \<and> (\<exists>t resp. Fulfilled 60 deleted_reply = Fulfilled t resp \<and> ok resp
          \<and> currentConversationId open_state = Some (str ''c1'')
          \<and> currentConversationId
               (state_of (handleDeleteConversation Web (Some alice) 1000 (str ''c1'')
                  (Fulfilled 60 deleted_reply) (Fulfilled 80 one_conversation) open_state))
              = None)
   \<and> currentConversationId (state_of (loadConversation Web (Some alice) 1000 (str ''c1'')
         (Rejected 40 TypeError) fresh_state)) = Some (str ''c1'')"
proof -
  have a: "currentConversationId (state_of (handleSendMessage Web (Some alice) 1000
                (Fulfilled 120 hello_reply) (Fulfilled 80 one_conversation) fresh_state))
      \<noteq> currentConversationId fresh_state"
    by (simp add: send_defs list_defs fresh_state_def hello_reply_def hello_body_def
          hello_answer_def one_conversation_def alice_def str_def)
  have b: "currentConversationId
               (state_of (handleDeleteConversation Web (Some alice) 1000 (str ''c1'')
                  (Fulfilled 60 deleted_reply) (Fulfilled 80 one_conversation) open_state))
      \<noteq> currentConversationId open_state"
    by (simp add: delete_defs loading_finally_def list_defs open_state_def deleted_reply_def
          one_conversation_def alice_def)
  note th = identifier_moves_only_when_acknowledged [where plat = Web and sess = "Some alice"
      and se = alice and now = 1000 and conversationId = "str ''c1''"]
  note s = th [where s = fresh_state and net_send = "Fulfilled 120 hello_reply"
      and net_list = "Fulfilled 80 one_conversation", THEN conjunct1, rule_format, OF a]
  note d = th [where s = open_state and net_delete = "Fulfilled 60 deleted_reply"
      and net_list = "Fulfilled 80 one_conversation", THEN conjunct2, THEN conjunct1,
      rule_format, OF b]
  note l = th [where s = fresh_state and net_load = "Rejected 40 TypeError",
      THEN conjunct2, THEN conjunct2, THEN conjunct2]
  show ?thesis
    by (intro conjI) (rule s, rule d, rule l)
qed

text \<open>
  The statement without the amendment fails for load conversation. From a new chat, a load
  of \<open>c1\<close> that the server answers with status 500 ends with \<open>c1\<close> as the current
  identifier: the identity state has moved on a failed call.
\<close>

theorem load_failure_moves_identifier:
  "currentConversationId fresh_state = None
   \<and> loadConversation Web (Some alice) 1000 (str ''c1'') (Fulfilled 50 server_down) fresh_state
       = Completed
           \<lparr>messages = [loadFetchMessage Web 1050], inputText = str ''hello'', isLoading = False,
            isLoadingConversations = False, conversations = [],
            currentConversationId = Some (str ''c1''),
            requests = [GET_messages (str ''c1'') (str ''tok'')]\<rparr>"
  by (simp add: load_defs loading_finally_def ok_def fresh_state_def server_down_def alice_def)

section \<open>Answers the send cannot use\<close>

text \<open>
  Claim C4, as amended. When the server answers a send 2xx within the timeout and the
  parsed body is \<^verbatim>\<open>null\<close> or lacks (or has empty) the conversation identifier, the
  response object or the response content, the operation completes with exactly the
  dispatch state plus one synthetic error message after the user's message: no bot message
  is appended, the identifier is unchanged, the flag is lowered and no refresh is issued.
  A body that lacks only the bot message identifier is not in this case.
\<close>

theorem malformed_reply_is_an_error:
  assumes "trim (inputText s) \<noteq> []"
    and "net_send = Fulfilled t resp" and "t < FETCH_TIMEOUT" and "ok resp"
    and "body_json resp = JNull
         \<or> (\<exists>d. body_json resp = JValue d
               \<and> (\<not> truthy (conversation_id d) \<or> response d = None
                  \<or> (\<exists>r. response d = Some r \<and> \<not> truthy (content r))))"
  shows "handleSendMessage plat (Some se) now net_send net_list s
         = Completed
             (s\<lparr>messages := messages s @ [userMessage now (inputText s), errorBotMessage (now + t)],
                inputText := [],
                isLoading := False,
                requests := requests s @ [POST_chat (access_token se) (requestBody s)]\<rparr>)"
proof -
  let ?s1 = "send_dispatch se now s"
  let ?cur = "currentConversationId s"
  have arrived: "fetchWithTimeout FETCH_TIMEOUT net_send = Fulfilled t resp"
    using assms(2,3) by (simp add: fetchWithTimeout_def)
  have "send_settle plat (Some se) now ?cur net_send net_list ?s1
      = Completed (loading_finally (send_malformed (now + t) ?s1))"
    using assms(5)
  proof (elim disjE exE conjE)
    assume "body_json resp = JNull"
    then show ?thesis
      using assms(4) by (simp add: send_settle_def arrived send_then_def)
  next
    fix d
    assume "body_json resp = JValue d" and "\<not> truthy (conversation_id d)"
    then show ?thesis
      using assms(4)
      by (simp add: send_settle_def arrived send_then_def truthy_def split: option.splits)
  next
    fix d
    assume "body_json resp = JValue d" and "response d = None"
    then show ?thesis
      using assms(4) by (simp add: send_settle_def arrived send_then_def)
  next
    fix d r
    assume "body_json resp = JValue d" and "response d = Some r" and "\<not> truthy (content r)"
    then show ?thesis
      using assms(4)
      by (simp add: send_settle_def arrived send_then_def truthy_def split: option.splits)
  qed
  then show ?thesis
    using assms(1)
    by (simp add: handleSendMessage_def loading_finally_def send_malformed_def send_dispatch_def)
qed

theorem malformed_reply_is_an_error_witness:
  "handleSendMessage Web (Some alice) 1000 (Fulfilled 120 null_reply) Pending fresh_state
   = Completed
       (fresh_state\<lparr>messages := messages fresh_state @
                       [userMessage 1000 (inputText fresh_state), errorBotMessage (1000 + 120)],
                inputText := [],
                isLoading := False,
                requests := requests fresh_state @
                  [POST_chat (access_token alice) (requestBody fresh_state)]\<rparr>)"
proof -
  have f: "trim (inputText fresh_state) \<noteq> []"
    by (simp add: fresh_state_def trim_def str_def isWhiteSpace_def)
  have t: "(120::nat) < FETCH_TIMEOUT"
    by (simp add: FETCH_TIMEOUT_def)
  have k: "ok null_reply"
    by (simp add: ok_def null_reply_def)
  have b: "body_json null_reply = JNull
         \<or> (\<exists>d. body_json null_reply = JValue d
               \<and> (\<not> truthy (conversation_id d) \<or> response d = None
                  \<or> (\<exists>r. response d = Some r \<and> \<not> truthy (content r))))"
    by (simp add: null_reply_def)
  show ?thesis
    by (rule malformed_reply_is_an_error [OF f refl t k b])
qed

text \<open>
  The statement without the amendment fails for the bot message identifier. The answer
  \<^verbatim>\<open>{conversation_id: "c1", response: {content: "hi there", created_at: ...}}\<close>, which
  has no \<^verbatim>\<open>response.id\<close>, passes the test of the callback: a bot message with an
  undefined identifier is appended, no error message is, and the send counts as the first
  of a new conversation.
\<close>

theorem missing_answer_id_is_accepted:
  "handleSendMessage Web (Some alice) 1000 (Fulfilled 120 reply_without_id)
     (Fulfilled 80 one_conversation) fresh_state
   = Completed
       \<lparr>messages = [userMessage 1000 (str ''hello''),
                    \<lparr>m_id = None, m_text = str ''hi there'', m_sender = Bot,
                     m_timestamp = Parsed (str ''2024-01-01T00:00:00Z'')\<rparr>],
        inputText = [], isLoading = False, isLoadingConversations = False,
        conversations = [first_conversation], currentConversationId = Some (str ''c1''),
        requests =
          [POST_chat (str ''tok'') \<lparr>req_message = str ''hello'', req_conversation_id = None\<rparr>,
           GET_conversations (str ''tok'')]\<rparr>"
  by (simp add: send_defs list_defs fresh_state_def reply_without_id_def answer_without_id_def
        one_conversation_def first_conversation_def alice_def str_def)

text \<open>
  Claim C5, as amended. When the server answers a send with a status outside 200 to 299
  (within the timeout), the operation completes with the dispatch state plus one
  bot-authored error message after the user's message, which stays in the list. The text
  of that message names the platform and points to the console; it is the same for every
  status.
\<close>

theorem rejected_send_appends_generic_error:
  assumes "trim (inputText s) \<noteq> []"
    and "net_send = Fulfilled t resp" and "t < FETCH_TIMEOUT" and "\<not> ok resp"
  shows "handleSendMessage plat (Some se) now net_send net_list s
         = Completed
             (s\<lparr>messages := messages s @
                    [userMessage now (inputText s), sendErrorMessage plat (now + t)],
                inputText := [],
                isLoading := False,
                requests := requests s @ [POST_chat (access_token se) (requestBody s)]\<rparr>)
     \<and> m_sender (sendErrorMessage plat (now + t)) = Bot
     \<and> m_text (sendErrorMessage plat (now + t))
         = str ''Error sending message on '' @ OS plat @ str ''. Check console for details.''"
  using assms
  by (simp add: handleSendMessage_def send_settle_def fetchWithTimeout_def send_catch_def
        loading_finally_def send_dispatch_def sendErrorMessage_def)

theorem rejected_send_appends_generic_error_witness:
  "handleSendMessage Android (Some alice) 1000 (Fulfilled 120 server_down) Pending fresh_state
         = Completed
             (fresh_state\<lparr>messages := messages fresh_state @
                  [userMessage 1000 (inputText fresh_state), sendErrorMessage Android (1000 + 120)],
                inputText := [],
                isLoading := False,
                requests := requests fresh_state @
                  [POST_chat (access_token alice) (requestBody fresh_state)]\<rparr>)
     \<and> m_sender (sendErrorMessage Android (1000 + 120)) = Bot
     \<and> m_text (sendErrorMessage Android (1000 + 120))
         = str ''Error sending message on '' @ OS Android @ str ''. Check console for details.''"
proof -
  have f: "trim (inputText fresh_state) \<noteq> []"
    by (simp add: fresh_state_def trim_def str_def isWhiteSpace_def)
  have t: "(120::nat) < FETCH_TIMEOUT"
    by (simp add: FETCH_TIMEOUT_def)
  have k: "\<not> ok (server_down :: chat_response http_response)"
    by (simp add: ok_def server_down_def)
  show ?thesis
    by (rule rejected_send_appends_generic_error [OF f refl t k])
qed

text \<open>
  The statement without the amendment fails for the description of the status. After a
  status 500 the appended text is "Error sending message on web. Check console for
  details."; the digits of the status do not occur in it.
\<close>

theorem server_error_text_is_generic:
  "handleSendMessage Web (Some alice) 1000 (Fulfilled 120 server_down) Pending fresh_state
   = Completed
       \<lparr>messages = [userMessage 1000 (str ''hello''), sendErrorMessage Web 1120],
        inputText = [], isLoading = False, isLoadingConversations = False,
        conversations = [], currentConversationId = None,
        requests =
          [POST_chat (str ''tok'') \<lparr>req_message = str ''hello'', req_conversation_id = None\<rparr>]\<rparr>
   \<and> m_text (sendErrorMessage Web 1120)
       = str ''Error sending message on web. Check console for details.''
   \<and> \<not> sublist (show_nat 500) (m_text (sendErrorMessage Web 1120))"
  by (simp add: send_defs fetchWithTimeout_def FETCH_TIMEOUT_def ok_def fresh_state_def
        server_down_def alice_def str_def sendErrorMessage_def show_nat.simps
        sublist_Cons_right)

section \<open>List conversations without a session\<close>

text \<open>
  Claim C6, as amended. Without a session \<^verbatim>\<open>fetchConversations\<close> returns at once: its
  promise is fulfilled and the whole state is as before, so no request is added to the
  trace, the conversation list and the message list keep their entries, and no error is
  raised or shown.
\<close>

theorem signed_out_list_is_noop:
  "fetchConversations plat None now net s = Completed s"
  by (simp add: fetchConversations_def)

theorem signed_out_list_is_noop_witness:
  "fetchConversations Ios None 1000 (Fulfilled 80 one_conversation) fresh_state
     = Completed fresh_state"
  by (rule signed_out_list_is_noop)

text \<open>
  The statement without the amendment fails: the operation does not fail and its result is
  not empty. With a conversation listed and two messages shown, the call without a session
  is fulfilled and leaves the listed conversation and both messages in place.
\<close>

theorem signed_out_list_reports_nothing:
  "fetchConversations Web None 1000 (Fulfilled 80 server_down) open_state = Completed open_state
   \<and> conversations open_state = [first_conversation]
   \<and> length (messages open_state) = 2
   \<and> requests open_state = []"
  by (simp add: fetchConversations_def open_state_def)

section \<open>Calls without a timer\<close>

text \<open>
  What the timer gives where it is used: \<^verbatim>\<open>fetchConversations\<close> and
  \<^verbatim>\<open>handleSendMessage\<close> complete for every behaviour of the transport, one that never
  settles included.
\<close>

lemma fetchConversations_completes:
  "\<exists>s'. fetchConversations plat sess now net s = Completed s'"
  using fetchConversations_frame [of plat sess now net s] by blast

lemma handleSendMessage_completes:
  "\<exists>s'. handleSendMessage plat sess now net_send net_list s = Completed s'"
  using handleSendMessage_identifier [of plat sess now net_send net_list s] by blast

text \<open>
  Claim C3. The claim is that list, load, send and delete are all wrapped with the
  30-second timeout. The source wraps list and send only; \<^verbatim>\<open>loadConversation\<close> and
  \<^verbatim>\<open>handleDeleteConversation\<close> call \<^verbatim>\<open>fetch\<close> directly. Evaluated with an answer that
  arrives after 45 seconds: load and delete take it as a success, where the list call has
  failed at 30 seconds and shown its diagnostic message.
\<close>

theorem load_and_delete_are_not_timed:
  "FETCH_TIMEOUT < 45000
   \<and> loadConversation Web (Some alice) 1000 (str ''c1'') (Fulfilled 45000 history_reply) fresh_state
       = Completed
           \<lparr>messages =
              [\<lparr>m_id = Some (str ''u1''), m_text = str ''hello'', m_sender = User,
                m_timestamp = Parsed (str ''2024-01-01T00:00:00Z'')\<rparr>,
               \<lparr>m_id = Some (str ''m1''), m_text = str ''hi there'', m_sender = Bot,
                m_timestamp = Parsed (str ''2024-01-01T00:00:01Z'')\<rparr>],
            inputText = str ''hello'', isLoading = False, isLoadingConversations = False,
            conversations = [], currentConversationId = Some (str ''c1''),
            requests = [GET_messages (str ''c1'') (str ''tok'')]\<rparr>
   \<and> handleDeleteConversation Web (Some alice) 1000 (str ''c1'')
         (Fulfilled 45000 deleted_reply) (Fulfilled 80 one_conversation) open_state
       = Completed
           \<lparr>messages = [], inputText = [], isLoading = False, isLoadingConversations = False,
            conversations = [first_conversation], currentConversationId = None,
            requests = [DELETE_conversation (str ''c1'') (str ''tok''),
                        GET_conversations (str ''tok'')]\<rparr>
   \<and> fetchConversations Web (Some alice) 1000 (Fulfilled 45000 one_conversation) fresh_state
       = Completed
           \<lparr>messages = [diagnosticMessage Web 31000], inputText = str ''hello'',
            isLoading = False, isLoadingConversations = False,
            conversations = [], currentConversationId = None,
            requests = [GET_conversations (str ''tok'')]\<rparr>"
  by (simp add: load_defs delete_defs loading_finally_def list_defs history_reply_def
        deleted_reply_def one_conversation_def fresh_state_def open_state_def alice_def str_def)

section \<open>The loading flag\<close>

text \<open>
  The flag is raised in every dispatch state. A send lowers it on every outcome; a load or
  a delete lowers it on every outcome in which its own transport call settles.
\<close>

lemma dispatch_raises_flag:
  "isLoading (send_dispatch se now s)"
  "isLoading (load_dispatch se conversationId s)"
  "isLoading (delete_dispatch se conversationId s)"
  by (simp_all add: send_dispatch_def load_dispatch_def delete_dispatch_def)

lemma send_lowers_flag:
  assumes "trim (inputText s) \<noteq> []"
  shows "\<exists>s'. handleSendMessage plat (Some se) now net_send net_list s = Completed s'
           \<and> \<not> isLoading s'"
  using assms
    send_settle_frame [of plat "Some se" now "currentConversationId s" net_send net_list
      "send_dispatch se now s"]
  by (auto simp: handleSendMessage_def)

lemma settled_load_lowers_flag:
  assumes "net \<noteq> Pending"
  shows "\<exists>s'. loadConversation plat (Some se) now conversationId net s = Completed s'
           \<and> \<not> isLoading s'"
  using assms
  by (cases net)
    (simp_all add: loadConversation_def load_try_def load_catch_def loading_finally_def Let_def
      split: json_body.splits option.splits)

lemma delete_catch_lowers_flag: "\<not> isLoading (state_of (delete_catch t closure s))"
  by (simp add: delete_catch_def loading_finally_def split: sum.splits bool.splits)

lemma settled_delete_lowers_flag:
  assumes "net_delete \<noteq> Pending"
  shows "\<not> isLoading
           (state_of (handleDeleteConversation plat (Some se) now conversationId net_delete net_list s))"
proof (cases net_delete)
  case Pending
  then show ?thesis
    using assms by simp
next
  case (Rejected t e)
  then show ?thesis
    by (simp add: handleDeleteConversation_def delete_catch_lowers_flag)
next
  case (Fulfilled t resp)
  obtain s2 where "fetchConversations plat (Some se) (now + t) net_list
      (delete_dispatch se conversationId s) = Completed s2"
    using fetchConversations_completes by blast
  then show ?thesis
    using Fulfilled
    by (simp add: handleDeleteConversation_def delete_catch_lowers_flag loading_finally_def
          Let_def)
qed

lemma hung_load_is_suspended:
  "loadConversation plat (Some se) now conversationId Pending s
     = Suspended (load_dispatch se conversationId s)"
  by (simp add: loadConversation_def)

lemma hung_delete_is_suspended:
  "handleDeleteConversation plat (Some se) now conversationId Pending net_list s
     = Suspended (delete_dispatch se conversationId s)"
  by (simp add: handleDeleteConversation_def)

text \<open>
  Claim C9. The claim is that no execution path of send, load or delete leaves the flag
  raised for good. The \<^verbatim>\<open>finally\<close> blocks lower it once the awaited call settles, but
  load and delete await a \<^verbatim>\<open>fetch\<close> that no timer races. Evaluated with a transport
  that never settles: both operations stay suspended in their dispatch state, with the flag
  raised and the send control disabled.
\<close>

theorem hung_load_keeps_flag_raised:
  "loadConversation Web (Some alice) 1000 (str ''c1'') Pending fresh_state
     = Suspended
         \<lparr>messages = [], inputText = str ''hello'', isLoading = True,
          isLoadingConversations = False, conversations = [],
          currentConversationId = Some (str ''c1''),
          requests = [GET_messages (str ''c1'') (str ''tok'')]\<rparr>
   \<and> handleDeleteConversation Web (Some alice) 1000 (str ''c1'')
         (Pending :: unit http_response promise) (Fulfilled 80 one_conversation) fresh_state
     = Suspended
         \<lparr>messages = [], inputText = str ''hello'', isLoading = True,
          isLoadingConversations = False, conversations = [],
          currentConversationId = None,
          requests = [DELETE_conversation (str ''c1'') (str ''tok'')]\<rparr>"
  by (simp add: loadConversation_def load_dispatch_def handleDeleteConversation_def
        delete_dispatch_def fresh_state_def alice_def)

end
